theory Spec2Isabelle
  imports Main "HOL-Library.Log_Nat"
begin

section \<open>Python values used by the skill library\<close>

subsection \<open>Floats\<close>

text \<open>
  A Python \<open>float\<close> is an IEEE 754 binary64 number. A finite float is modelled by the
  rational number it denotes; the two infinities and NaN are separate values. The two
  zeros \<open>0.0\<close> and \<open>-0.0\<close> are one value \<open>Fin 0\<close>: Python's \<open>==\<close> does not tell them
  apart either.
\<close>

datatype pyfloat = Fin rat | PInf | NInf | NaN

text \<open>Comparisons: every comparison with NaN is false.\<close>

fun float_le :: "pyfloat \<Rightarrow> pyfloat \<Rightarrow> bool" where
  "float_le NaN y = False"
| "float_le x NaN = False"
| "float_le (Fin a) (Fin b) = (a \<le> b)"
| "float_le NInf y = True"
| "float_le x PInf = True"
| "float_le PInf y = False"
| "float_le (Fin a) NInf = False"

fun float_lt :: "pyfloat \<Rightarrow> pyfloat \<Rightarrow> bool" where
  "float_lt NaN y = False"
| "float_lt x NaN = False"
| "float_lt (Fin a) (Fin b) = (a < b)"
| "float_lt PInf y = False"
| "float_lt x NInf = False"
| "float_lt NInf y = True"
| "float_lt (Fin a) PInf = True"

text \<open>
  Rounding of an exact result to the nearest binary64 number, ties to even: 53 bits of
  precision, exponents down to \<open>-1022\<close> (below that the spacing stays \<open>2 ^ -1074\<close>), and
  overflow to an infinity from \<open>2 ^ 1024\<close> on.
\<close>

definition round_half_even :: "rat \<Rightarrow> int" where
  "round_half_even q =
     (if q - of_int \<lfloor>q\<rfloor> < 1 / 2 then \<lfloor>q\<rfloor>
      else if 1 / 2 < q - of_int \<lfloor>q\<rfloor> then \<lfloor>q\<rfloor> + 1
      else if even \<lfloor>q\<rfloor> then \<lfloor>q\<rfloor> else \<lfloor>q\<rfloor> + 1)"

definition pow2 :: "int \<Rightarrow> rat" where
  "pow2 k = (if 0 \<le> k then 2 ^ nat k else 1 / 2 ^ nat (- k))"

definition float_exponent :: "rat \<Rightarrow> int" where
  \<comment> \<open>for \<open>0 < a\<close>: the \<open>e\<close> with \<open>2 ^ e \<le> a < 2 ^ (e + 1)\<close>\<close>
  "float_exponent a =
     (if 1 \<le> a then bitlen \<lfloor>a\<rfloor> - 1 else - bitlen (\<lceil>1 / a\<rceil> - 1))"

definition round_to_unit :: "int \<Rightarrow> rat \<Rightarrow> rat" where
  \<comment> \<open>the multiple of \<open>2 ^ (e - 52)\<close> nearest to \<open>a\<close>\<close>
  "round_to_unit e a = of_int (round_half_even (a / pow2 (e - 52))) * pow2 (e - 52)"

definition round_magnitude :: "rat \<Rightarrow> rat" where
  "round_magnitude a = round_to_unit (max (float_exponent a) (- 1022)) a"

definition round_double :: "rat \<Rightarrow> pyfloat" where
  "round_double x =
     (if x = 0 then Fin 0
      else if 1024 \<le> float_exponent (round_magnitude \<bar>x\<bar>)
        then (if 0 < x then PInf else NInf)
      else Fin (if 0 < x then round_magnitude \<bar>x\<bar> else - round_magnitude \<bar>x\<bar>))"

text \<open>A float literal of the source denotes the double nearest to its decimal.\<close>

definition float_lit :: "rat \<Rightarrow> pyfloat" where
  "float_lit q = round_double q"

definition inf_times :: "bool \<Rightarrow> rat \<Rightarrow> pyfloat" where
  \<comment> \<open>an infinity (positive when the flag is set) times a finite float\<close>
  "inf_times pos a =
     (if a = 0 then NaN else if (0 < a) = pos then PInf else NInf)"

fun float_mul :: "pyfloat \<Rightarrow> pyfloat \<Rightarrow> pyfloat" where
  "float_mul NaN y = NaN"
| "float_mul x NaN = NaN"
| "float_mul (Fin a) (Fin b) = round_double (a * b)"
| "float_mul (Fin a) PInf = inf_times True a"
| "float_mul (Fin a) NInf = inf_times False a"
| "float_mul PInf (Fin b) = inf_times True b"
| "float_mul NInf (Fin b) = inf_times False b"
| "float_mul PInf PInf = PInf"
| "float_mul NInf NInf = PInf"
| "float_mul PInf NInf = NInf"
| "float_mul NInf PInf = NInf"

fun float_sub :: "pyfloat \<Rightarrow> pyfloat \<Rightarrow> pyfloat" where
  "float_sub NaN y = NaN"
| "float_sub x NaN = NaN"
| "float_sub (Fin a) (Fin b) = round_double (a - b)"
| "float_sub PInf PInf = NaN"
| "float_sub NInf NInf = NaN"
| "float_sub PInf y = PInf"
| "float_sub NInf y = NInf"
| "float_sub (Fin a) PInf = NInf"
| "float_sub (Fin a) NInf = PInf"

subsection \<open>Exceptions\<close>

datatype pyexn = KeyError string | OverflowError

text \<open>
  Sequencing of computations that may raise: the first exception ends the evaluation.
\<close>

definition bind_exn :: "pyexn + 'a \<Rightarrow> ('a \<Rightarrow> pyexn + 'b) \<Rightarrow> pyexn + 'b" where
  "bind_exn r f = (case r of Inl e \<Rightarrow> Inl e | Inr v \<Rightarrow> f v)"

text \<open>
  An \<open>int\<close> operand of a float operation is converted first; Python raises
  \<open>OverflowError\<close> (int too large to convert to float) when the integer rounds to
  \<open>2 ^ 1024\<close> or beyond.
\<close>

definition float_of_int :: "int \<Rightarrow> pyexn + pyfloat" where
  "float_of_int n =
     (case round_double (of_int n) of
        Fin q \<Rightarrow> Inr (Fin q)
      | _ \<Rightarrow> Inl OverflowError)"

subsection \<open>Strings\<close>

text \<open>
  Strings are Isabelle strings: lists of characters with codes up to 255. \<open>str.lower\<close> and
  \<open>str.upper\<close> are modelled on the ASCII letters; every other character is left as it is.
  The skills compare the mapped string with lists of ASCII words and use it further only
  when it is one of them.
\<close>

definition lower_char :: "char \<Rightarrow> char" where
  "lower_char c =
     (let n = of_char c :: nat in if 65 \<le> n \<and> n \<le> 90 then char_of (n + 32) else c)"

definition upper_char :: "char \<Rightarrow> char" where
  "upper_char c =
     (let n = of_char c :: nat in if 97 \<le> n \<and> n \<le> 122 then char_of (n - 32) else c)"

definition lower :: "string \<Rightarrow> string" where
  "lower s = map lower_char s"

definition upper :: "string \<Rightarrow> string" where
  "upper s = map upper_char s"

definition capitalize :: "string \<Rightarrow> string" where
  "capitalize s = (case s of [] \<Rightarrow> [] | c # cs \<Rightarrow> upper_char c # lower cs)"

text \<open>
  \<open>str(n)\<close> for an integer, as an f-string interpolates it. (An interpreter that limits
  the length of this conversion refuses integers of more than 4300 digits; the only
  unbounded integer that a skill prints is the \<open>count\<close> of \<open>create_array_modifier\<close>, and a
  count of that size is beyond the range of a float as well.)
\<close>

fun digits :: "nat \<Rightarrow> string" where
  "digits n =
     (if n < 10 then [char_of (48 + n)]
      else digits (n div 10) @ [char_of (48 + n mod 10)])"

declare digits.simps [simp del]

definition str_int :: "int \<Rightarrow> string" where
  "str_int i = (if i < 0 then CHR ''-'' # digits (nat (- i)) else digits (nat i))"

text \<open>
  \<open>str(xs)\<close> for a list of strings, as an f-string interpolates it: the \<open>repr\<close> of each
  element in single quotes (the lists printed here hold plain lowercase words or capital
  letters, which need no escaping).
\<close>

definition repr_str :: "string \<Rightarrow> string" where
  "repr_str s = [CHR 0x27] @ s @ [CHR 0x27]"

fun join :: "string \<Rightarrow> string list \<Rightarrow> string" where
  "join sep [] = []"
| "join sep [x] = x"
| "join sep (x # y # ys) = x @ sep @ join sep (y # ys)"

definition str_list :: "string list \<Rightarrow> string" where
  "str_list xs = ''['' @ join '', '' (map repr_str xs) @ '']''"

subsection \<open>Dictionaries and the values they hold\<close>

text \<open>
  A dictionary literal is an association list in the order the source writes its keys.
\<close>

datatype pyval =
    VNone
  | VBool bool
  | VInt int
  | VFloat pyfloat
  | VStr string
  | VTuple "pyval list"
  | VList "pyval list"
  | VDict "(string \<times> pyval) list"

type_synonym pydict = "(string \<times> pyval) list"

type_synonym vec3 = "pyfloat \<times> pyfloat \<times> pyfloat"

definition tuple3 :: "vec3 \<Rightarrow> pyval" where
  "tuple3 v = (case v of (x, y, z) \<Rightarrow> VTuple [VFloat x, VFloat y, VFloat z])"

definition getitem :: "(string \<times> 'v) list \<Rightarrow> string \<Rightarrow> pyexn + 'v" where
  \<comment> \<open>\<open>d[k]\<close>: a missing key raises \<open>KeyError\<close>\<close>
  "getitem d k = (case map_of d k of None \<Rightarrow> Inl (KeyError k) | Some v \<Rightarrow> Inr v)"

definition dq :: string where
  \<comment> \<open>the double quote character, as the f-strings print it\<close>
  "dq = [CHR 0x22]"

section \<open>The skills\<close>

text \<open>
  Every skill returns its response envelope, or raises. A skill reads the clock
  (\<open>time.time()\<close>) exactly twice on every path, first on entry and once more for the
  envelope it returns; the two readings are the parameters \<open>start_time\<close> and \<open>end_time\<close>
  of the model, so that a skill is a function of its arguments and of the clock.
\<close>

type_synonym skill_result = "pyexn + pydict"

subsection \<open>Modeling skills (\<open>modeling_tools.py\<close>)\<close>

definition valid_primitives :: "string list" where
  "valid_primitives = [''cube'', ''sphere'', ''cylinder'', ''cone'', ''plane'', ''torus'']"

definition geometry_data :: "(string \<times> (string \<times> int) list) list" where
  "geometry_data =
     [(''cube'', [(''vertices'', 8), (''faces'', 6)]),
      (''sphere'', [(''vertices'', 482), (''faces'', 480)]),
      (''cylinder'', [(''vertices'', 64), (''faces'', 62)]),
      (''cone'', [(''vertices'', 33), (''faces'', 31)]),
      (''plane'', [(''vertices'', 4), (''faces'', 1)]),
      (''torus'', [(''vertices'', 576), (''faces'', 576)])]"

definition create_primitive ::
  "pyfloat \<Rightarrow> pyfloat \<Rightarrow> string \<Rightarrow> pyfloat \<Rightarrow> vec3 \<Rightarrow> vec3 \<Rightarrow> string option \<Rightarrow> skill_result"
where
  "create_primitive start_time end_time primitive_type size' location rotation name =
     (if lower primitive_type \<notin> set valid_primitives then
        Inr [(''status'', VStr ''error''),
             (''message'', VStr (''Invalid primitive type '' @ dq @ primitive_type @ dq
                @ ''. Valid options: '' @ str_list valid_primitives)),
             (''data'', VDict []),
             (''execution_time'', VFloat (float_sub end_time start_time))]
      else if float_le size' (Fin 0) then
        Inr [(''status'', VStr ''error''),
             (''message'', VStr ''Size must be greater than 0''),
             (''data'', VDict []),
             (''execution_time'', VFloat (float_sub end_time start_time))]
      else
        let name = (case name of None \<Rightarrow> capitalize primitive_type @ ''.001'' | Some n \<Rightarrow> n);
            execution_time = float_sub end_time start_time
        in bind_exn (getitem geometry_data primitive_type) (\<lambda>entry.
           bind_exn (getitem entry ''vertices'') (\<lambda>vertices.
           bind_exn (getitem geometry_data primitive_type) (\<lambda>entry'.
           bind_exn (getitem entry' ''faces'') (\<lambda>faces.
             Inr [(''status'', VStr ''success''),
                  (''message'', VStr (capitalize primitive_type
                     @ '' primitive created successfully'')),
                  (''data'', VDict
                     [(''object_name'', VStr name),
                      (''primitive_type'', VStr primitive_type),
                      (''location'', tuple3 location),
                      (''rotation'', tuple3 rotation),
                      (''size'', VFloat size'),
                      (''vertex_count'', VInt vertices),
                      (''face_count'', VInt faces)]),
                  (''execution_time'', VFloat execution_time)])))))"

definition extrude_faces ::
  "pyfloat \<Rightarrow> pyfloat \<Rightarrow> string \<Rightarrow> int list \<Rightarrow> pyfloat \<Rightarrow> vec3 \<Rightarrow> skill_result"
where
  "extrude_faces start_time end_time object_name face_indices extrude_distance direction =
     (if face_indices = [] then
        Inr [(''status'', VStr ''error''),
             (''message'', VStr ''No faces selected for extrusion''),
             (''data'', VDict []),
             (''execution_time'', VFloat (float_sub end_time start_time))]
      else
        Inr [(''status'', VStr ''success''),
             (''message'', VStr (''Extruded '' @ str_int (int (length face_indices))
                @ '' faces successfully'')),
             (''data'', VDict
                [(''object_name'', VStr object_name),
                 (''extruded_faces'', VInt (int (length face_indices))),
                 (''extrude_distance'', VFloat extrude_distance),
                 (''direction'', tuple3 direction)]),
             (''execution_time'', VFloat (float_sub end_time start_time))])"

definition subdivide_surface ::
  "pyfloat \<Rightarrow> pyfloat \<Rightarrow> string \<Rightarrow> int \<Rightarrow> bool \<Rightarrow> skill_result"
where
  "subdivide_surface start_time end_time object_name subdivision_level smooth =
     (if subdivision_level < 1 \<or> 10 < subdivision_level then
        Inr [(''status'', VStr ''error''),
             (''message'', VStr ''Subdivision level must be between 1 and 10''),
             (''data'', VDict []),
             (''execution_time'', VFloat (float_sub end_time start_time))]
      else
        let base_vertices = 8 :: int;
            new_vertex_count = base_vertices * 4 ^ nat subdivision_level
        in Inr [(''status'', VStr ''success''),
                (''message'', VStr (''Subdivision surface applied at level ''
                   @ str_int subdivision_level)),
                (''data'', VDict
                   [(''object_name'', VStr object_name),
                    (''subdivision_level'', VInt subdivision_level),
                    (''smooth_shading'', VBool smooth),
                    (''new_vertex_count'', VInt new_vertex_count),
                    (''performance_impact'', VStr
                       (if 3 < subdivision_level then ''high''
                        else if 1 < subdivision_level then ''medium'' else ''low''))]),
                (''execution_time'', VFloat (float_sub end_time start_time))])"

definition valid_axes :: "string list" where
  "valid_axes = [''X'', ''Y'', ''Z'']"

definition apply_mirror_modifier ::
  "pyfloat \<Rightarrow> pyfloat \<Rightarrow> string \<Rightarrow> string \<Rightarrow> bool \<Rightarrow> pyfloat \<Rightarrow> skill_result"
where
  "apply_mirror_modifier start_time end_time object_name axis use_clipping merge_threshold =
     (if upper axis \<notin> set valid_axes then
        Inr [(''status'', VStr ''error''),
             (''message'', VStr (''Invalid axis '' @ dq @ axis @ dq
                @ ''. Valid options: '' @ str_list valid_axes)),
             (''data'', VDict []),
             (''execution_time'', VFloat (float_sub end_time start_time))]
      else
        Inr [(''status'', VStr ''success''),
             (''message'', VStr (''Mirror modifier applied on '' @ upper axis @ '' axis'')),
             (''data'', VDict
                [(''object_name'', VStr object_name),
                 (''mirror_axis'', VStr (upper axis)),
                 (''use_clipping'', VBool use_clipping),
                 (''merge_threshold'', VFloat merge_threshold),
                 (''estimated_vertex_doubling'', VBool True)]),
             (''execution_time'', VFloat (float_sub end_time start_time))])"

definition create_array_modifier ::
  "pyfloat \<Rightarrow> pyfloat \<Rightarrow> string \<Rightarrow> int \<Rightarrow> pyfloat \<Rightarrow> string \<Rightarrow> skill_result"
where
  "create_array_modifier start_time end_time object_name count offset_distance axis =
     (if count < 1 then
        Inr [(''status'', VStr ''error''),
             (''message'', VStr ''Array count must be at least 1''),
             (''data'', VDict []),
             (''execution_time'', VFloat (float_sub end_time start_time))]
      else if upper axis \<notin> set valid_axes then
        Inr [(''status'', VStr ''error''),
             (''message'', VStr (''Invalid axis '' @ dq @ axis @ dq
                @ ''. Valid options: '' @ str_list valid_axes)),
             (''data'', VDict []),
             (''execution_time'', VFloat (float_sub end_time start_time))]
      else
        bind_exn (float_of_int (count - 1)) (\<lambda>instances_after_first.
          Inr [(''status'', VStr ''success''),
               (''message'', VStr (''Array modifier created with '' @ str_int count
                  @ '' instances'')),
               (''data'', VDict
                  [(''object_name'', VStr object_name),
                   (''total_instances'', VInt count),
                   (''offset_distance'', VFloat offset_distance),
                   (''array_axis'', VStr (upper axis)),
                   (''total_length'', VFloat (float_mul offset_distance instances_after_first))]),
               (''execution_time'', VFloat (float_sub end_time start_time))]))"

subsection \<open>Shading skills (\<open>shading_tools.py\<close>)\<close>

definition components :: "vec3 \<Rightarrow> pyfloat list" where
  "components v = (case v of (x, y, z) \<Rightarrow> [x, y, z])"

definition create_pbr_material ::
  "pyfloat \<Rightarrow> pyfloat \<Rightarrow> string \<Rightarrow> vec3 \<Rightarrow> pyfloat \<Rightarrow> pyfloat \<Rightarrow> pyfloat \<Rightarrow> vec3 \<Rightarrow> pyfloat
     \<Rightarrow> skill_result"
where
  "create_pbr_material start_time end_time material_name base_color metallic roughness
       normal_strength emission_color emission_strength =
     (if list_ex (\<lambda>color. \<not> list_all (\<lambda>c. float_le (Fin 0) c \<and> float_le c (Fin 1))
                              (components color))
           [base_color, emission_color] then
        Inr [(''status'', VStr ''error''),
             (''message'', VStr ''Color values must be between 0.0 and 1.0''),
             (''data'', VDict []),
             (''execution_time'', VFloat (float_sub end_time start_time))]
      else if \<not> (float_le (Fin 0) metallic \<and> float_le metallic (Fin 1)) then
        Inr [(''status'', VStr ''error''),
             (''message'', VStr ''Metallic value must be between 0.0 and 1.0''),
             (''data'', VDict []),
             (''execution_time'', VFloat (float_sub end_time start_time))]
      else if \<not> (float_le (Fin 0) roughness \<and> float_le roughness (Fin 1)) then
        Inr [(''status'', VStr ''error''),
             (''message'', VStr ''Roughness value must be between 0.0 and 1.0''),
             (''data'', VDict []),
             (''execution_time'', VFloat (float_sub end_time start_time))]
      else
        let material_type =
              (if float_lt (float_lit (7 / 10)) metallic then ''Metallic'' else ''Dielectric'');
            surface_type =
              (if float_lt roughness (float_lit (3 / 10)) then ''Glossy''
               else if float_lt (float_lit (7 / 10)) roughness then ''Rough'' else ''Satin'')
        in Inr [(''status'', VStr ''success''),
                (''message'', VStr (''PBR material '' @ dq @ material_name @ dq
                   @ '' created successfully'')),
                (''data'', VDict
                   [(''material_name'', VStr material_name),
                    (''material_type'', VStr ''PBR''),
                    (''surface_classification'', VStr (material_type @ '' '' @ surface_type)),
                    (''properties'', VDict
                       [(''base_color'', tuple3 base_color),
                        (''metallic'', VFloat metallic),
                        (''roughness'', VFloat roughness),
                        (''normal_strength'', VFloat normal_strength),
                        (''emission_color'', tuple3 emission_color),
                        (''emission_strength'', VFloat emission_strength)]),
                    (''render_engine_compatibility'',
                       VList [VStr ''Cycles'', VStr ''Eevee'', VStr ''Arnold'', VStr ''V-Ray''])]),
                (''execution_time'', VFloat (float_sub end_time start_time))])"

definition apply_material_to_object ::
  "pyfloat \<Rightarrow> pyfloat \<Rightarrow> string \<Rightarrow> string \<Rightarrow> int \<Rightarrow> skill_result"
where
  "apply_material_to_object start_time end_time object_name material_name material_slot =
     (if material_slot < 0 then
        Inr [(''status'', VStr ''error''),
             (''message'', VStr ''Material slot must be 0 or greater''),
             (''data'', VDict []),
             (''execution_time'', VFloat (float_sub end_time start_time))]
      else
        Inr [(''status'', VStr ''success''),
             (''message'', VStr (''Material '' @ dq @ material_name @ dq @ '' applied to ''
                @ dq @ object_name @ dq)),
             (''data'', VDict
                [(''object_name'', VStr object_name),
                 (''material_name'', VStr material_name),
                 (''material_slot'', VInt material_slot),
                 (''application_method'', VStr ''direct_assignment'')]),
             (''execution_time'', VFloat (float_sub end_time start_time))])"

definition valid_types :: "string list" where
  "valid_types = [''noise'', ''voronoi'', ''wave'', ''magic'', ''brick'', ''checker'']"

type_synonym ramp = "(pyfloat \<times> vec3) list"

definition default_color_ramp :: ramp where
  "default_color_ramp = [(Fin 0, (Fin 0, Fin 0, Fin 0)), (Fin 1, (Fin 1, Fin 1, Fin 1))]"

definition create_procedural_texture ::
  "pyfloat \<Rightarrow> pyfloat \<Rightarrow> string \<Rightarrow> string \<Rightarrow> pyfloat \<Rightarrow> pyfloat \<Rightarrow> pyfloat \<Rightarrow> ramp option
     \<Rightarrow> skill_result"
where
  "create_procedural_texture start_time end_time texture_name texture_type scale detail
       distortion color_ramp =
     (if lower texture_type \<notin> set valid_types then
        Inr [(''status'', VStr ''error''),
             (''message'', VStr (''Invalid texture type '' @ dq @ texture_type @ dq
                @ ''. Valid options: '' @ str_list valid_types)),
             (''data'', VDict []),
             (''execution_time'', VFloat (float_sub end_time start_time))]
      else
        let color_ramp = (case color_ramp of None \<Rightarrow> default_color_ramp | Some r \<Rightarrow> r)
        in Inr [(''status'', VStr ''success''),
                (''message'', VStr (''Procedural texture '' @ dq @ texture_name @ dq
                   @ '' created'')),
                (''data'', VDict
                   [(''texture_name'', VStr texture_name),
                    (''texture_type'', VStr texture_type),
                    (''properties'', VDict
                       [(''scale'', VFloat scale),
                        (''detail'', VFloat detail),
                        (''distortion'', VFloat distortion),
                        (''color_ramp_stops'', VInt (int (length color_ramp)))]),
                    (''node_type'', VStr ''procedural''),
                    (''output_type'', VStr ''color_and_factor'')]),
                (''execution_time'', VFloat (float_sub end_time start_time))])"

section \<open>Reading an envelope\<close>

fun lookup_path :: "pyval \<Rightarrow> string list \<Rightarrow> pyval option" where
  "lookup_path v [] = Some v"
| "lookup_path (VDict d) (k # ks) =
     (case map_of d k of None \<Rightarrow> None | Some v \<Rightarrow> lookup_path v ks)"
| "lookup_path v (k # ks) = None"

definition field :: "skill_result \<Rightarrow> string list \<Rightarrow> pyval option" where
  \<comment> \<open>\<open>field r [''data'', ''k'']\<close> is \<open>r['data']['k']\<close> of a returned envelope\<close>
  "field r path = (case r of Inl e \<Rightarrow> None | Inr env \<Rightarrow> lookup_path (VDict env) path)"

definition keys :: "skill_result \<Rightarrow> string list option" where
  "keys r = (case r of Inl e \<Rightarrow> None | Inr env \<Rightarrow> Some (map fst env))"

definition is_error :: "skill_result \<Rightarrow> bool" where
  \<comment> \<open>an error envelope was returned: status \<open>error\<close> and an empty \<open>data\<close>\<close>
  "is_error r =
     (field r [''status''] = Some (VStr ''error'') \<and> field r [''data''] = Some (VDict []))"

definition is_success :: "skill_result \<Rightarrow> bool" where
  "is_success r = (field r [''status''] = Some (VStr ''success''))"

definition in_unit_interval :: "pyfloat \<Rightarrow> bool" where
  \<comment> \<open>\<open>0.0 <= c <= 1.0\<close>\<close>
  "in_unit_interval c = (float_le (Fin 0) c \<and> float_le c (Fin 1))"

definition outcome_data :: "skill_result \<Rightarrow> pyexn + pyval option" where
  \<comment> \<open>what a call shows apart from the clock: the exception raised, or the \<open>data\<close> returned\<close>
  "outcome_data r = (case r of Inl e \<Rightarrow> Inl e | Inr env \<Rightarrow> Inr (map_of env ''data''))"

definition well_formed_envelope :: "pydict \<Rightarrow> bool" where
  \<comment> \<open>exactly the four keys, and an empty \<open>data\<close> when the status is \<open>error\<close>\<close>
  "well_formed_envelope env =
     (map fst env = [''status'', ''message'', ''data'', ''execution_time'']
      \<and> (map_of env ''status'' = Some (VStr ''error'') \<longrightarrow> map_of env ''data'' = Some (VDict [])))"

section \<open>Evaluation lemmas\<close>

lemma upper_examples:
  "upper ''X'' = ''X''" "upper ''x'' = ''X''" "upper ''z'' = ''Z''" "upper ''W'' = ''W''"
  by code_simp+

lemma lower_examples:
  "lower ''noise'' = ''noise''" "lower ''sphere'' = ''sphere''" "lower ''Sphere'' = ''sphere''"
  by code_simp+

text \<open>
  Values of the float literals used below, the order of floats, and the sign of a rounded
  result.
\<close>

lemma float_lit_values:
  "float_lit (3 / 10) = Fin (5404319552844595 / 18014398509481984)"
  "float_lit (7 / 10) = Fin (3152519739159347 / 4503599627370496)"
  "float_lit (9 / 10) = Fin (8106479329266893 / 9007199254740992)"
  by code_simp+

lemma glossy_not_rough:
  "float_lt roughness (float_lit (3 / 10)) \<Longrightarrow> \<not> float_lt (float_lit (7 / 10)) roughness"
  by (cases roughness) (simp_all add: float_lit_values)

lemma round_half_even_nonneg: "0 \<le> q \<Longrightarrow> 0 \<le> round_half_even q"
  by (simp add: round_half_even_def)

lemma pow2_pos: "0 < pow2 k"
  by (simp add: pow2_def)

lemma round_magnitude_nonneg: "0 \<le> a \<Longrightarrow> 0 \<le> round_magnitude a"
  using pow2_pos [of "max (float_exponent a) (- 1022) - 52"]
  by (simp add: round_magnitude_def round_to_unit_def round_half_even_nonneg)

lemma round_double_nonneg: "0 \<le> x \<Longrightarrow> float_le (Fin 0) (round_double x)"
  by (simp add: round_double_def round_magnitude_nonneg)

lemma execution_time_nonneg:
  "a \<le> b \<Longrightarrow> float_le (Fin 0) (float_sub (Fin b) (Fin a))"
  by (simp add: round_double_nonneg)

lemma bitlen_numeral:
  "bitlen 1 = 1" "bitlen (numeral Num.One) = 1"
  "bitlen (numeral (Num.Bit0 n)) = bitlen (numeral n) + 1"
  "bitlen (numeral (Num.Bit1 n)) = bitlen (numeral n) + 1"
  by (subst compute_bitlen, simp)+

lemma float_of_int_overflow: "float_of_int (2 ^ 1024) = Inl OverflowError"
  by (simp add: float_of_int_def round_double_def round_magnitude_def round_to_unit_def
      float_exponent_def pow2_def round_half_even_def bitlen_numeral)

lemma float_of_int_4: "float_of_int 4 = Inr (Fin 4)"
  by code_simp

lemma round_double_12: "round_double 12 = Fin 12"
  by code_simp

section \<open>Modeling skills: properties\<close>

text \<open>
  C3. \<open>subdivide_surface\<close> returns an error envelope exactly when \<open>subdivision_level\<close> is
  outside \<open>[1, 10]\<close>. On success it reports \<open>new_vertex_count = 8 * 4 ^ subdivision_level\<close>,
  and \<open>performance_impact\<close> is \<open>low\<close> for a level of at most 1, \<open>medium\<close> for a level above
  1 and at most 3, and \<open>high\<close> for a level above 3.
\<close>

theorem subdivide_surface_levels:
  "(is_error (subdivide_surface t0 t1 object_name level smooth)) = (level < 1 \<or> 10 < level)
   \<and> (1 \<le> level \<and> level \<le> 10 \<longrightarrow>
        is_success (subdivide_surface t0 t1 object_name level smooth)
        \<and> field (subdivide_surface t0 t1 object_name level smooth) [''data'', ''new_vertex_count'']
            = Some (VInt (8 * 4 ^ nat level))
        \<and> (level \<le> 1 \<longrightarrow>
             field (subdivide_surface t0 t1 object_name level smooth)
               [''data'', ''performance_impact''] = Some (VStr ''low''))
        \<and> (1 < level \<and> level \<le> 3 \<longrightarrow>
             field (subdivide_surface t0 t1 object_name level smooth)
               [''data'', ''performance_impact''] = Some (VStr ''medium''))
        \<and> (3 < level \<longrightarrow>
             field (subdivide_surface t0 t1 object_name level smooth)
               [''data'', ''performance_impact''] = Some (VStr ''high'')))"
  by (simp add: subdivide_surface_def is_error_def is_success_def field_def Let_def)

theorem subdivide_surface_levels_witness:
  "((1::int) \<le> 1 \<and> (1::int) \<le> 10
      \<and> field (subdivide_surface (Fin 0) (Fin 0) ''Cube.001'' 1 True)
          [''data'', ''new_vertex_count''] = Some (VInt 32)
      \<and> field (subdivide_surface (Fin 0) (Fin 0) ''Cube.001'' 1 True)
          [''data'', ''performance_impact''] = Some (VStr ''low''))
   \<and> ((1::int) < 2 \<and> (2::int) \<le> 3
      \<and> is_success (subdivide_surface (Fin 0) (Fin 0) ''Cube.001'' 2 True)
      \<and> field (subdivide_surface (Fin 0) (Fin 0) ''Cube.001'' 2 True)
          [''data'', ''new_vertex_count''] = Some (VInt 128)
      \<and> field (subdivide_surface (Fin 0) (Fin 0) ''Cube.001'' 2 True)
          [''data'', ''performance_impact''] = Some (VStr ''medium''))
   \<and> ((3::int) < 5 \<and> (5::int) \<le> 10
      \<and> field (subdivide_surface (Fin 0) (Fin 0) ''Cube.001'' 5 True)
          [''data'', ''new_vertex_count''] = Some (VInt 8192)
      \<and> field (subdivide_surface (Fin 0) (Fin 0) ''Cube.001'' 5 True)
          [''data'', ''performance_impact''] = Some (VStr ''high''))
   \<and> is_error (subdivide_surface (Fin 0) (Fin 0) ''Cube.001'' 11 True)"
  using subdivide_surface_levels [of "Fin 0" "Fin 0" "''Cube.001''" 1 True]
    subdivide_surface_levels [of "Fin 0" "Fin 0" "''Cube.001''" 2 True]
    subdivide_surface_levels [of "Fin 0" "Fin 0" "''Cube.001''" 5 True]
    subdivide_surface_levels [of "Fin 0" "Fin 0" "''Cube.001''" 11 True]
  by simp

text \<open>
  C7. \<open>extrude_faces\<close> returns an error envelope exactly when \<open>face_indices\<close> is empty. For
  every non-empty list, whatever the indices in it (they are not validated), it returns a
  success envelope whose \<open>extruded_faces\<close> is the length of the list and which echoes
  \<open>extrude_distance\<close> and \<open>direction\<close>.
\<close>

theorem extrude_faces_nonempty:
  "(is_error (extrude_faces t0 t1 object_name face_indices extrude_distance direction))
     = (face_indices = [])
   \<and> (face_indices \<noteq> [] \<longrightarrow>
        is_success (extrude_faces t0 t1 object_name face_indices extrude_distance direction)
        \<and> field (extrude_faces t0 t1 object_name face_indices extrude_distance direction)
            [''data'', ''extruded_faces''] = Some (VInt (int (length face_indices)))
        \<and> field (extrude_faces t0 t1 object_name face_indices extrude_distance direction)
            [''data'', ''extrude_distance''] = Some (VFloat extrude_distance)
        \<and> field (extrude_faces t0 t1 object_name face_indices extrude_distance direction)
            [''data'', ''direction''] = Some (tuple3 direction))"
  by (simp add: extrude_faces_def is_error_def is_success_def field_def)

theorem extrude_faces_nonempty_witness:
  "[- 1, 1000000000 :: int] \<noteq> []
   \<and> is_success (extrude_faces (Fin 0) (Fin 0) ''Cube.001'' [- 1, 1000000000] (Fin 1)
        (Fin 0, Fin 0, Fin 1))
   \<and> field (extrude_faces (Fin 0) (Fin 0) ''Cube.001'' [- 1, 1000000000] (Fin 1)
        (Fin 0, Fin 0, Fin 1)) [''data'', ''extruded_faces''] = Some (VInt 2)"
  using extrude_faces_nonempty [of "Fin 0" "Fin 0" "''Cube.001''" "[- 1, 1000000000]" "Fin 1"
    "(Fin 0, Fin 0, Fin 1)"] by simp

text \<open>
  C10. On every successful call of \<open>apply_mirror_modifier\<close>, \<open>data.mirror_axis\<close> is the
  uppercased \<open>axis\<close> argument (\<open>z\<close> is reported as \<open>Z\<close>), and \<open>object_name\<close>, \<open>use_clipping\<close>
  and \<open>merge_threshold\<close> are echoed unchanged.
\<close>

theorem apply_mirror_modifier_echo:
  "is_success (apply_mirror_modifier t0 t1 object_name axis use_clipping merge_threshold) \<Longrightarrow>
   field (apply_mirror_modifier t0 t1 object_name axis use_clipping merge_threshold)
     [''data'', ''mirror_axis''] = Some (VStr (upper axis))
   \<and> field (apply_mirror_modifier t0 t1 object_name axis use_clipping merge_threshold)
     [''data'', ''object_name''] = Some (VStr object_name)
   \<and> field (apply_mirror_modifier t0 t1 object_name axis use_clipping merge_threshold)
     [''data'', ''use_clipping''] = Some (VBool use_clipping)
   \<and> field (apply_mirror_modifier t0 t1 object_name axis use_clipping merge_threshold)
     [''data'', ''merge_threshold''] = Some (VFloat merge_threshold)"
  by (simp add: apply_mirror_modifier_def is_success_def field_def split: if_splits)

theorem apply_mirror_modifier_echo_witness:
  "is_success (apply_mirror_modifier (Fin 0) (Fin 0) ''Character.001'' ''z'' True (Fin (1 / 1000)))
   \<and> field (apply_mirror_modifier (Fin 0) (Fin 0) ''Character.001'' ''z'' True (Fin (1 / 1000)))
     [''data'', ''mirror_axis''] = Some (VStr ''Z'')"
proof -
  have s: "is_success (apply_mirror_modifier (Fin 0) (Fin 0) ''Character.001'' ''z'' True
             (Fin (1 / 1000)))"
    by (simp add: apply_mirror_modifier_def is_success_def field_def upper_examples
        valid_axes_def)
  from apply_mirror_modifier_echo [OF s] s show ?thesis by (simp add: upper_examples)
qed

subsection \<open>\<open>create_primitive\<close>\<close>

text \<open>
  The validation of \<open>create_primitive\<close> lowercases \<open>primitive_type\<close>, the table lookup does
  not: the call raises exactly for the types that pass the validation without being
  written in lowercase. For the lowercase names the call succeeds with the table's counts,
  as in the example \<open>create_primitive('sphere', size=3.0, location=(5, 0, 2))\<close>.
\<close>

lemma lower_valid_primitive: "p \<in> set valid_primitives \<Longrightarrow> lower p = p"
  by (auto simp add: valid_primitives_def lower_examples) code_simp+

lemma create_primitive_raises_iff:
  "(\<exists>e. create_primitive t0 t1 primitive_type size' location rotation name = Inl e)
     = (lower primitive_type \<in> set valid_primitives \<and> \<not> float_le size' (Fin 0)
        \<and> primitive_type \<notin> set valid_primitives)"
  by (auto simp add: create_primitive_def bind_exn_def getitem_def Let_def geometry_data_def
      valid_primitives_def split: option.splits)

lemma create_primitive_lowercase:
  assumes "primitive_type \<in> set valid_primitives" and "\<not> float_le size' (Fin 0)"
  shows "\<exists>entry vertices faces.
    map_of geometry_data primitive_type = Some entry
    \<and> map_of entry ''vertices'' = Some vertices \<and> map_of entry ''faces'' = Some faces
    \<and> is_success (create_primitive t0 t1 primitive_type size' location rotation name)
    \<and> field (create_primitive t0 t1 primitive_type size' location rotation name)
        [''data'', ''vertex_count''] = Some (VInt vertices)
    \<and> field (create_primitive t0 t1 primitive_type size' location rotation name)
        [''data'', ''face_count''] = Some (VInt faces)"
proof -
  from assms(1) have l: "lower primitive_type \<in> set valid_primitives"
    by (simp add: lower_valid_primitive)
  from assms(1) have "primitive_type = ''cube'' \<or> primitive_type = ''sphere''
      \<or> primitive_type = ''cylinder'' \<or> primitive_type = ''cone''
      \<or> primitive_type = ''plane'' \<or> primitive_type = ''torus''"
    by (simp add: valid_primitives_def)
  then show ?thesis
    using l assms(2)
    by (elim disjE)
       (simp_all add: create_primitive_def bind_exn_def getitem_def Let_def geometry_data_def
          is_success_def field_def)
qed

lemma create_primitive_sphere_example:
  "is_success (create_primitive (Fin 0) (Fin 0) ''sphere'' (Fin 3) (Fin 5, Fin 0, Fin 2)
       (Fin 0, Fin 0, Fin 0) None)
   \<and> field (create_primitive (Fin 0) (Fin 0) ''sphere'' (Fin 3) (Fin 5, Fin 0, Fin 2)
       (Fin 0, Fin 0, Fin 0) None) [''data'', ''vertex_count''] = Some (VInt 482)
   \<and> field (create_primitive (Fin 0) (Fin 0) ''sphere'' (Fin 3) (Fin 5, Fin 0, Fin 2)
       (Fin 0, Fin 0, Fin 0) None) [''data'', ''face_count''] = Some (VInt 480)"
  by (simp add: create_primitive_def lower_examples valid_primitives_def bind_exn_def
      getitem_def Let_def geometry_data_def is_success_def field_def)

text \<open>
  C1. The claim: for every \<open>primitive_type\<close> whose lowercase form is one of \<open>cube\<close>,
  \<open>sphere\<close>, \<open>cylinder\<close>, \<open>cone\<close>, \<open>plane\<close>, \<open>torus\<close> and every \<open>size > 0\<close>,
  \<open>create_primitive\<close> returns a success envelope with the table's \<open>vertex_count\<close> and
  \<open>face_count\<close>, without raising. The code does not do so: \<open>Sphere\<close> with size \<open>3.0\<close>
  passes both checks and the call raises \<open>KeyError\<close>.
\<close>

theorem create_primitive_mixed_case_raises:
  "lower ''Sphere'' \<in> set valid_primitives \<and> float_lt (Fin 0) (Fin 3)
   \<and> create_primitive (Fin 0) (Fin 0) ''Sphere'' (Fin 3) (Fin 5, Fin 0, Fin 2)
        (Fin 0, Fin 0, Fin 0) None = Inl (KeyError ''Sphere'')"
  by (simp add: create_primitive_def lower_examples valid_primitives_def bind_exn_def
      getitem_def Let_def geometry_data_def)

subsection \<open>\<open>create_array_modifier\<close>\<close>

text \<open>
  The product \<open>offset_distance * (count - 1)\<close> converts the integer to a float first, which
  raises for an integer beyond the range of a float.
\<close>

lemma create_array_modifier_overflow:
  "create_array_modifier (Fin 0) (Fin 0) ''Pillar'' (2 ^ 1024 + 1) (Fin 3) ''X''
     = Inl OverflowError"
  using float_of_int_overflow
  by (simp add: create_array_modifier_def upper_examples valid_axes_def bind_exn_def)

text \<open>
  C5, as stated: an error envelope whenever \<open>axis\<close> is not one of \<open>X\<close>, \<open>Y\<close>, \<open>Z\<close>. The code
  compares the uppercased axis, so the axis \<open>x\<close> is accepted.
\<close>

theorem create_array_modifier_lowercase_axis:
  "''x'' \<notin> {''X'', ''Y'', ''Z''}
   \<and> \<not> is_error (create_array_modifier (Fin 0) (Fin 0) ''Pillar'' 5 (Fin 3) ''x'')
   \<and> is_success (create_array_modifier (Fin 0) (Fin 0) ''Pillar'' 5 (Fin 3) ''x'')"
  by (simp add: create_array_modifier_def upper_examples valid_axes_def bind_exn_def
      float_of_int_4 is_error_def is_success_def field_def)

text \<open>
  C5, amended. \<open>create_array_modifier\<close> returns an error envelope if \<open>count < 1\<close>; it
  returns an error envelope if the uppercased \<open>axis\<close> is not one of \<open>X\<close>, \<open>Y\<close>, \<open>Z\<close>;
  otherwise, when \<open>count - 1\<close> converts to a float \<open>c\<close>, it returns a success envelope with
  \<open>total_instances = count\<close> and \<open>total_length\<close> the float product of \<open>offset_distance\<close> and
  \<open>c\<close> (\<open>count = 5\<close> and \<open>offset_distance = 3.0\<close> give 5 and 12.0).
\<close>

theorem create_array_modifier_checks:
  "(count < 1 \<longrightarrow>
      is_error (create_array_modifier start_time end_time object_name count offset_distance axis))
   \<and> (upper axis \<notin> set valid_axes \<longrightarrow>
      is_error (create_array_modifier start_time end_time object_name count offset_distance axis))
   \<and> (1 \<le> count \<and> upper axis \<in> set valid_axes \<and> float_of_int (count - 1) = Inr c \<longrightarrow>
      is_success (create_array_modifier start_time end_time object_name count offset_distance axis)
      \<and> field (create_array_modifier start_time end_time object_name count offset_distance axis)
          [''data'', ''total_instances''] = Some (VInt count)
      \<and> field (create_array_modifier start_time end_time object_name count offset_distance axis)
          [''data'', ''total_length''] = Some (VFloat (float_mul offset_distance c)))"
  by (simp add: create_array_modifier_def bind_exn_def is_error_def is_success_def field_def)

theorem create_array_modifier_checks_witness:
  "((0::int) < 1
      \<and> is_error (create_array_modifier (Fin 0) (Fin 0) ''Pillar'' 0 (Fin 3) ''X''))
   \<and> (upper ''W'' \<notin> set valid_axes
      \<and> is_error (create_array_modifier (Fin 0) (Fin 0) ''Pillar'' 5 (Fin 3) ''W''))
   \<and> ((1::int) \<le> 5 \<and> upper ''X'' \<in> set valid_axes \<and> float_of_int (5 - 1) = Inr (Fin 4)
      \<and> is_success (create_array_modifier (Fin 0) (Fin 0) ''Pillar'' 5 (Fin 3) ''X'')
      \<and> field (create_array_modifier (Fin 0) (Fin 0) ''Pillar'' 5 (Fin 3) ''X'')
          [''data'', ''total_instances''] = Some (VInt 5)
      \<and> field (create_array_modifier (Fin 0) (Fin 0) ''Pillar'' 5 (Fin 3) ''X'')
          [''data'', ''total_length''] = Some (VFloat (Fin 12)))"
  using
    create_array_modifier_checks [where count = 0 and axis = "''X''" and start_time = "Fin 0"
      and end_time = "Fin 0" and object_name = "''Pillar''" and offset_distance = "Fin 3"]
    create_array_modifier_checks [where count = 5 and axis = "''W''" and start_time = "Fin 0"
      and end_time = "Fin 0" and object_name = "''Pillar''" and offset_distance = "Fin 3"]
    create_array_modifier_checks [where count = 5 and axis = "''X''" and start_time = "Fin 0"
      and end_time = "Fin 0" and object_name = "''Pillar''" and offset_distance = "Fin 3"
      and c = "Fin 4"]
  by (simp add: upper_examples valid_axes_def float_of_int_4 round_double_12)

section \<open>Shading skills: properties\<close>

text \<open>
  C6. For every call of \<open>create_procedural_texture\<close> with a valid \<open>texture_type\<close>: when
  \<open>color_ramp\<close> is \<open>None\<close> the call behaves as with the two-stop black-to-white ramp
  \<open>[(0.0, black), (1.0, white)]\<close> and reports \<open>color_ramp_stops = 2\<close>; when a ramp is given,
  the empty one included, \<open>color_ramp_stops\<close> is its length.
\<close>

theorem create_procedural_texture_ramp:
  "lower texture_type \<in> set valid_types \<Longrightarrow>
   create_procedural_texture t0 t1 texture_name texture_type scale detail distortion None
     = create_procedural_texture t0 t1 texture_name texture_type scale detail distortion
         (Some [(Fin 0, (Fin 0, Fin 0, Fin 0)), (Fin 1, (Fin 1, Fin 1, Fin 1))])
   \<and> field (create_procedural_texture t0 t1 texture_name texture_type scale detail distortion None)
       [''data'', ''properties'', ''color_ramp_stops''] = Some (VInt 2)
   \<and> field (create_procedural_texture t0 t1 texture_name texture_type scale detail distortion
         (Some color_ramp))
       [''data'', ''properties'', ''color_ramp_stops''] = Some (VInt (int (length color_ramp)))"
  by (simp add: create_procedural_texture_def default_color_ramp_def field_def)

theorem create_procedural_texture_ramp_witness:
  "lower ''noise'' \<in> set valid_types
   \<and> field (create_procedural_texture (Fin 0) (Fin 0) ''T'' ''noise'' (Fin 1) (Fin 2) (Fin 0) None)
       [''data'', ''properties'', ''color_ramp_stops''] = Some (VInt 2)
   \<and> field (create_procedural_texture (Fin 0) (Fin 0) ''T'' ''noise'' (Fin 1) (Fin 2) (Fin 0)
         (Some []))
       [''data'', ''properties'', ''color_ramp_stops''] = Some (VInt 0)"
proof -
  have h: "lower ''noise'' \<in> set valid_types"
    by (simp add: lower_examples valid_types_def)
  from create_procedural_texture_ramp [OF h, of "Fin 0" "Fin 0" "''T''" "Fin 1" "Fin 2" "Fin 0" "[]",
      THEN conjunct2]
    h show ?thesis by simp
qed

text \<open>
  C9. \<open>create_pbr_material\<close> does not validate \<open>normal_strength\<close> or \<open>emission_strength\<close>:
  whatever their values (negative, infinite, NaN), when every channel of \<open>base_color\<close> and
  of \<open>emission_color\<close>, \<open>metallic\<close> and \<open>roughness\<close> are within \<open>[0.0, 1.0]\<close> the call
  returns a success envelope that echoes both in \<open>data.properties\<close>.
\<close>

theorem create_pbr_material_strengths_unchecked:
  "list_all in_unit_interval (components base_color) \<Longrightarrow>
   list_all in_unit_interval (components emission_color) \<Longrightarrow>
   in_unit_interval metallic \<Longrightarrow> in_unit_interval roughness \<Longrightarrow>
   is_success (create_pbr_material t0 t1 material_name base_color metallic roughness
       normal_strength emission_color emission_strength)
   \<and> field (create_pbr_material t0 t1 material_name base_color metallic roughness
       normal_strength emission_color emission_strength)
       [''data'', ''properties'', ''normal_strength''] = Some (VFloat normal_strength)
   \<and> field (create_pbr_material t0 t1 material_name base_color metallic roughness
       normal_strength emission_color emission_strength)
       [''data'', ''properties'', ''emission_strength''] = Some (VFloat emission_strength)"
  by (cases base_color, cases emission_color)
     (simp add: create_pbr_material_def components_def in_unit_interval_def is_success_def
        field_def Let_def)

theorem create_pbr_material_strengths_unchecked_witness:
  "list_all in_unit_interval (components (Fin (1 / 2), Fin 0, Fin 1))
   \<and> list_all in_unit_interval (components (Fin 0, Fin 0, Fin 0))
   \<and> in_unit_interval (Fin 0) \<and> in_unit_interval (Fin (1 / 2))
   \<and> is_success (create_pbr_material (Fin 0) (Fin 0) ''M'' (Fin (1 / 2), Fin 0, Fin 1) (Fin 0)
        (Fin (1 / 2)) (Fin (- 5)) (Fin 0, Fin 0, Fin 0) PInf)
   \<and> field (create_pbr_material (Fin 0) (Fin 0) ''M'' (Fin (1 / 2), Fin 0, Fin 1) (Fin 0)
        (Fin (1 / 2)) (Fin (- 5)) (Fin 0, Fin 0, Fin 0) PInf)
        [''data'', ''properties'', ''normal_strength''] = Some (VFloat (Fin (- 5)))
   \<and> field (create_pbr_material (Fin 0) (Fin 0) ''M'' (Fin (1 / 2), Fin 0, Fin 1) (Fin 0)
        (Fin (1 / 2)) (Fin (- 5)) (Fin 0, Fin 0, Fin 0) PInf)
        [''data'', ''properties'', ''emission_strength''] = Some (VFloat PInf)"
proof -
  have h1: "list_all in_unit_interval (components (Fin (1 / 2), Fin 0, Fin 1))"
    and h2: "list_all in_unit_interval (components (Fin 0, Fin 0, Fin 0))"
    and h3: "in_unit_interval (Fin 0)" and h4: "in_unit_interval (Fin (1 / 2))"
    by (simp_all add: components_def in_unit_interval_def)
  from create_pbr_material_strengths_unchecked [OF h1 h2 h3 h4] h1 h2 h3 h4
  show ?thesis by simp
qed

text \<open>
  C4. On every successful call of \<open>create_pbr_material\<close>, \<open>data.surface_classification\<close> is
  \<open>material_type\<close>, a space and \<open>surface_type\<close>, where \<open>material_type\<close> is \<open>Metallic\<close>
  exactly when \<open>metallic > 0.7\<close> and \<open>Dielectric\<close> otherwise, and \<open>surface_type\<close> is
  \<open>Glossy\<close> exactly when \<open>roughness < 0.3\<close>, \<open>Rough\<close> exactly when \<open>roughness > 0.7\<close>, and
  \<open>Satin\<close> otherwise. With \<open>metallic = 0.9\<close> and \<open>roughness = 0.3\<close> it is
  \<open>Metallic Satin\<close>.
\<close>

theorem create_pbr_material_classification:
  assumes "is_success (create_pbr_material t0 t1 material_name base_color metallic roughness
       normal_strength emission_color emission_strength)"
  shows "\<exists>material_type surface_type.
    field (create_pbr_material t0 t1 material_name base_color metallic roughness
       normal_strength emission_color emission_strength) [''data'', ''surface_classification'']
      = Some (VStr (material_type @ '' '' @ surface_type))
    \<and> (material_type = ''Metallic'') = float_lt (float_lit (7 / 10)) metallic
    \<and> (material_type = ''Dielectric'') = (\<not> float_lt (float_lit (7 / 10)) metallic)
    \<and> (surface_type = ''Glossy'') = float_lt roughness (float_lit (3 / 10))
    \<and> (surface_type = ''Rough'') = float_lt (float_lit (7 / 10)) roughness
    \<and> (surface_type = ''Satin'')
        = (\<not> float_lt roughness (float_lit (3 / 10)) \<and> \<not> float_lt (float_lit (7 / 10)) roughness)"
proof -
  let ?mt = "if float_lt (float_lit (7 / 10)) metallic then ''Metallic'' else ''Dielectric''"
  let ?st = "if float_lt roughness (float_lit (3 / 10)) then ''Glossy''
             else if float_lt (float_lit (7 / 10)) roughness then ''Rough'' else ''Satin''"
  from assms have "field (create_pbr_material t0 t1 material_name base_color metallic roughness
       normal_strength emission_color emission_strength) [''data'', ''surface_classification'']
      = Some (VStr (?mt @ '' '' @ ?st))"
    by (simp add: create_pbr_material_def is_success_def field_def Let_def split: if_splits)
  moreover have "(?mt = ''Metallic'') = float_lt (float_lit (7 / 10)) metallic"
    "(?mt = ''Dielectric'') = (\<not> float_lt (float_lit (7 / 10)) metallic)"
    by simp_all
  moreover have "(?st = ''Glossy'') = float_lt roughness (float_lit (3 / 10))"
    "(?st = ''Rough'') = float_lt (float_lit (7 / 10)) roughness"
    "(?st = ''Satin'')
        = (\<not> float_lt roughness (float_lit (3 / 10)) \<and> \<not> float_lt (float_lit (7 / 10)) roughness)"
    using glossy_not_rough [of roughness] by auto
  ultimately show ?thesis by blast
qed

theorem create_pbr_material_classification_witness:
  "is_success (create_pbr_material (Fin 0) (Fin 0) ''Steel'' (Fin (1 / 2), Fin (1 / 2), Fin (1 / 2))
       (float_lit (9 / 10)) (float_lit (3 / 10)) (Fin 1) (Fin 0, Fin 0, Fin 0) (Fin 0))
   \<and> field (create_pbr_material (Fin 0) (Fin 0) ''Steel'' (Fin (1 / 2), Fin (1 / 2), Fin (1 / 2))
       (float_lit (9 / 10)) (float_lit (3 / 10)) (Fin 1) (Fin 0, Fin 0, Fin 0) (Fin 0))
       [''data'', ''surface_classification''] = Some (VStr ''Metallic Satin'')"
proof -
  let ?r = "create_pbr_material (Fin 0) (Fin 0) ''Steel'' (Fin (1 / 2), Fin (1 / 2), Fin (1 / 2))
       (float_lit (9 / 10)) (float_lit (3 / 10)) (Fin 1) (Fin 0, Fin 0, Fin 0) (Fin 0)"
  have s: "is_success ?r"
    by (simp add: create_pbr_material_def components_def is_success_def field_def Let_def
        float_lit_values)
  from create_pbr_material_classification [OF s] s show ?thesis
    by (clarsimp simp add: float_lit_values)
qed

section \<open>All skills: determinism of the data\<close>

lemma create_primitive_data:
  "outcome_data (create_primitive t0 t1 primitive_type size' location rotation name)
     = outcome_data (create_primitive t0' t1' primitive_type size' location rotation name)"
  by (simp add: create_primitive_def outcome_data_def bind_exn_def getitem_def Let_def
      split: option.splits)

lemma create_array_modifier_data:
  "outcome_data (create_array_modifier t0 t1 object_name count offset_distance axis)
     = outcome_data (create_array_modifier t0' t1' object_name count offset_distance axis)"
  by (simp add: create_array_modifier_def outcome_data_def bind_exn_def split: sum.splits)

text \<open>
  C8. Every skill is deterministic in its \<open>data\<close>: two calls with the same arguments, at
  whatever clock readings, raise the same exception or return envelopes with the same
  \<open>data\<close>; only \<open>execution_time\<close> may differ.
\<close>

theorem skills_data_deterministic:
  "outcome_data (create_primitive t0 t1 primitive_type size' location rotation name)
     = outcome_data (create_primitive t0' t1' primitive_type size' location rotation name)
   \<and> outcome_data (extrude_faces t0 t1 object_name face_indices extrude_distance direction)
     = outcome_data (extrude_faces t0' t1' object_name face_indices extrude_distance direction)
   \<and> outcome_data (subdivide_surface t0 t1 object_name subdivision_level smooth)
     = outcome_data (subdivide_surface t0' t1' object_name subdivision_level smooth)
   \<and> outcome_data (apply_mirror_modifier t0 t1 object_name axis use_clipping merge_threshold)
     = outcome_data (apply_mirror_modifier t0' t1' object_name axis use_clipping merge_threshold)
   \<and> outcome_data (create_array_modifier t0 t1 object_name count offset_distance axis)
     = outcome_data (create_array_modifier t0' t1' object_name count offset_distance axis)
   \<and> outcome_data (create_pbr_material t0 t1 material_name base_color metallic roughness
         normal_strength emission_color emission_strength)
     = outcome_data (create_pbr_material t0' t1' material_name base_color metallic roughness
         normal_strength emission_color emission_strength)
   \<and> outcome_data (apply_material_to_object t0 t1 object_name material_name material_slot)
     = outcome_data (apply_material_to_object t0' t1' object_name material_name material_slot)
   \<and> outcome_data (create_procedural_texture t0 t1 texture_name texture_type scale detail
         distortion color_ramp)
     = outcome_data (create_procedural_texture t0' t1' texture_name texture_type scale detail
         distortion color_ramp)"
proof (intro conjI)
  show "outcome_data (create_primitive t0 t1 primitive_type size' location rotation name)
     = outcome_data (create_primitive t0' t1' primitive_type size' location rotation name)"
    by (rule create_primitive_data)
  show "outcome_data (create_array_modifier t0 t1 object_name count offset_distance axis)
     = outcome_data (create_array_modifier t0' t1' object_name count offset_distance axis)"
    by (rule create_array_modifier_data)
qed (simp_all add: extrude_faces_def subdivide_surface_def apply_mirror_modifier_def
      create_pbr_material_def apply_material_to_object_def create_procedural_texture_def
      outcome_data_def Let_def)

section \<open>All skills: the response envelope\<close>

text \<open>
  Every envelope that a skill returns has exactly the keys \<open>status\<close>, \<open>message\<close>, \<open>data\<close>
  and \<open>execution_time\<close>, an empty \<open>data\<close> when its status is \<open>error\<close>, and the difference of
  the two clock readings as its \<open>execution_time\<close>, which is not negative when the clock
  has not gone backwards (\<open>execution_time_nonneg\<close>) and can be negative when it has. Six
  skills return an envelope on every input; \<open>create_primitive\<close> and
  \<open>create_array_modifier\<close> can raise instead.
\<close>

lemma create_primitive_envelope:
  "create_primitive t0 t1 primitive_type size' location rotation name = Inr env \<Longrightarrow>
   well_formed_envelope env
   \<and> map_of env ''execution_time'' = Some (VFloat (float_sub t1 t0))"
  by (auto simp add: create_primitive_def well_formed_envelope_def bind_exn_def getitem_def
      Let_def split: if_splits option.splits)

lemma extrude_faces_envelope:
  "\<exists>env. extrude_faces t0 t1 object_name face_indices extrude_distance direction = Inr env
     \<and> well_formed_envelope env
     \<and> map_of env ''execution_time'' = Some (VFloat (float_sub t1 t0))"
  by (simp add: extrude_faces_def well_formed_envelope_def)

lemma subdivide_surface_envelope:
  "\<exists>env. subdivide_surface t0 t1 object_name subdivision_level smooth = Inr env
     \<and> well_formed_envelope env
     \<and> map_of env ''execution_time'' = Some (VFloat (float_sub t1 t0))"
  by (simp add: subdivide_surface_def well_formed_envelope_def Let_def)

lemma apply_mirror_modifier_envelope:
  "\<exists>env. apply_mirror_modifier t0 t1 object_name axis use_clipping merge_threshold = Inr env
     \<and> well_formed_envelope env
     \<and> map_of env ''execution_time'' = Some (VFloat (float_sub t1 t0))"
  by (simp add: apply_mirror_modifier_def well_formed_envelope_def)

lemma create_array_modifier_envelope:
  "create_array_modifier t0 t1 object_name count offset_distance axis = Inr env \<Longrightarrow>
   well_formed_envelope env
   \<and> map_of env ''execution_time'' = Some (VFloat (float_sub t1 t0))"
  by (auto simp add: create_array_modifier_def well_formed_envelope_def bind_exn_def
      split: if_splits sum.splits)

lemma create_array_modifier_raises_iff:
  "(\<exists>e. create_array_modifier t0 t1 object_name count offset_distance axis = Inl e)
     = (1 \<le> count \<and> upper axis \<in> set valid_axes
        \<and> float_of_int (count - 1) = Inl OverflowError)"
  by (auto simp add: create_array_modifier_def bind_exn_def float_of_int_def
      split: sum.splits pyfloat.splits)

lemma create_pbr_material_envelope:
  "\<exists>env. create_pbr_material t0 t1 material_name base_color metallic roughness normal_strength
       emission_color emission_strength = Inr env
     \<and> well_formed_envelope env
     \<and> map_of env ''execution_time'' = Some (VFloat (float_sub t1 t0))"
  by (simp add: create_pbr_material_def well_formed_envelope_def Let_def)

lemma apply_material_to_object_envelope:
  "\<exists>env. apply_material_to_object t0 t1 object_name material_name material_slot = Inr env
     \<and> well_formed_envelope env
     \<and> map_of env ''execution_time'' = Some (VFloat (float_sub t1 t0))"
  by (simp add: apply_material_to_object_def well_formed_envelope_def)

lemma create_procedural_texture_envelope:
  "\<exists>env. create_procedural_texture t0 t1 texture_name texture_type scale detail distortion
       color_ramp = Inr env
     \<and> well_formed_envelope env
     \<and> map_of env ''execution_time'' = Some (VFloat (float_sub t1 t0))"
  by (simp add: create_procedural_texture_def well_formed_envelope_def Let_def)

lemma execution_time_clock_backwards:
  "field (extrude_faces (Fin 1) (Fin 0) ''Cube.001'' [0] (Fin 1) (Fin 0, Fin 0, Fin 1))
     [''execution_time''] = Some (VFloat (Fin (- 1)))"
proof -
  have "round_double (- 1) = Fin (- 1)" by code_simp
  then show ?thesis by (simp add: extrude_faces_def field_def)
qed

text \<open>
  C2. The claim: for every skill and every input, the returned envelope has exactly the
  four keys \<open>status\<close>, \<open>message\<close>, \<open>data\<close>, \<open>execution_time\<close>, its \<open>execution_time\<close> is not
  negative, and its \<open>data\<close> is empty when its status is \<open>error\<close>. The code does not return
  an envelope on every input: \<open>create_primitive\<close> with the type \<open>CUBE\<close> and size \<open>2.0\<close>
  raises, so there is no envelope and there are no keys.
\<close>

theorem create_primitive_mixed_case_no_envelope:
  "lower ''CUBE'' \<in> set valid_primitives \<and> float_lt (Fin 0) (Fin 2)
   \<and> keys (create_primitive (Fin 0) (Fin 1) ''CUBE'' (Fin 2) (Fin 0, Fin 0, Fin 0)
        (Fin 0, Fin 0, Fin 0) None) = None
   \<and> \<not> (\<exists>env. create_primitive (Fin 0) (Fin 1) ''CUBE'' (Fin 2) (Fin 0, Fin 0, Fin 0)
        (Fin 0, Fin 0, Fin 0) None = Inr env)"
proof -
  have l: "lower ''CUBE'' = ''cube''" by code_simp
  have "create_primitive (Fin 0) (Fin 1) ''CUBE'' (Fin 2) (Fin 0, Fin 0, Fin 0)
        (Fin 0, Fin 0, Fin 0) None = Inl (KeyError ''CUBE'')"
    by (simp add: create_primitive_def l valid_primitives_def bind_exn_def getitem_def Let_def
        geometry_data_def)
  then show ?thesis by (simp add: keys_def l valid_primitives_def)
qed

end
